theory Spec2Isabelle
  imports Main
begin

section \<open>The memory model\<close>

text \<open>
  \<open>simple::vector\<close> (src/include/simple/vector.h) manages raw memory through three
  pointers and an allocator. The embedding keeps that level: pointers are addresses
  counted in elements (\<open>nat\<close>, with \<open>0\<close> for \<open>nullptr\<close>), the heap says for every address
  whether it is unallocated, allocated raw storage or a constructed object, and every call
  of the allocator and of an element constructor, destructor or assignment is counted.

  C++ exceptions are values of \<open>error\<close>. Undefined behaviour (construction outside a raw
  slot of a live block, destruction or read of a slot holding no object, deallocation of
  something that is no live block of an equal allocator) sets the flag \<open>ub\<close>; the model
  then carries on with the pointer arithmetic the source performs.
\<close>

datatype error = LengthError | AllocationFailure | OutOfRange | ElementException

datatype 'a slot = Unallocated | Raw | Obj 'a

text \<open>
  \<open>blocks h p = Some (n, a)\<close>: a live block of \<open>n\<close> elements starts at \<open>p\<close>, obtained from
  allocator instance \<open>a\<close>. \<open>next_addr\<close> is the first address the allocator has never handed
  out. \<open>undestroyed\<close> counts the objects whose storage was deallocated without their
  destructor having run.
\<close>

record 'a heap =
  mem :: "nat \<Rightarrow> 'a slot"
  blocks :: "nat \<Rightarrow> (nat \<times> nat) option"
  next_addr :: nat
  n_alloc :: nat
  n_ctor :: nat
  n_dtor :: nat
  n_assign :: nat
  undestroyed :: nat
  ub :: bool

text \<open>
  What the template parameters \<open>ValueT\<close> and \<open>AllocT\<close> supply: the allocator's
  \<open>allocate\<close> refuses the requests in \<open>alloc_throws\<close>; \<open>ctor_throws k\<close> says whether the
  \<open>k\<close>-th call of a potentially throwing element constructor throws (\<open>k\<close> counts all
  constructor calls so far); \<open>assign_throws\<close> likewise for element assignment;
  \<open>nothrow_move\<close> is \<open>std::is_nothrow_move_constructible\<close>; \<open>moved_from\<close> is the value a
  moved-from element is left with; \<open>pocma\<close> is
  \<open>propagate_on_container_move_assignment\<close>.

  \<open>deallocate_one_arg\<close> stands for the call \<open>AllocTraitsT::deallocate(tmp)\<close> in the
  handler of \<open>resize\<close> (line 475). \<open>std::allocator_traits\<close> declares \<open>deallocate\<close> with
  three parameters only, so with the standard traits the call is ill-formed and the
  member cannot be instantiated. The source gives the call no meaning; the model gives it
  none either and leaves its effect on the heap open as this parameter.
\<close>

record 'a env =
  alloc_throws :: "nat \<Rightarrow> bool"
  alloc_max_size :: nat
  sizeof_value :: nat
  ctor_throws :: "nat \<Rightarrow> bool"
  assign_throws :: "nat \<Rightarrow> bool"
  nothrow_move :: bool
  moved_from :: "'a \<Rightarrow> 'a"
  default_value :: 'a
  pocma :: bool
  is_always_equal :: bool
  deallocate_one_arg :: "nat \<Rightarrow> 'a heap \<Rightarrow> 'a heap"

text \<open>Data layout of \<open>vector\<close>: \<open>m_begin\<close>, \<open>m_end\<close>, \<open>m_realend\<close>, \<open>m_alloc\<close>.\<close>

record vector =
  m_begin :: nat
  m_end :: nat
  m_realend :: nat
  m_alloc :: nat

definition is_obj :: "'a slot \<Rightarrow> bool" where
  "is_obj s = (case s of Obj _ \<Rightarrow> True | _ \<Rightarrow> False)"

subsection \<open>The allocator capability (\<open>std::allocator_traits\<close>)\<close>

text \<open>Equality of allocator instances: \<open>is_always_equal\<close>, or the same instance.\<close>

definition alloc_eq :: "'a env \<Rightarrow> nat \<Rightarrow> nat \<Rightarrow> bool" where
  "alloc_eq E a b = (is_always_equal E \<or> a = b)"

text \<open>\<open>AllocTraitsT::allocate(alloc, n)\<close>: throws, or hands out a fresh block of raw slots.\<close>

definition alloc_allocate :: "'a env \<Rightarrow> nat \<Rightarrow> nat \<Rightarrow> 'a heap \<Rightarrow> (error + nat) \<times> 'a heap" where
  "alloc_allocate E a n h =
     (let h1 = h\<lparr>n_alloc := n_alloc h + 1\<rparr> in
      if alloc_throws E n then (Inl AllocationFailure, h1)
      else (let p = next_addr h in
            (Inr p, h1\<lparr>mem := (\<lambda>q. if p \<le> q \<and> q < p + n then Raw else mem h q),
                       blocks := (blocks h)(p \<mapsto> (n, a)),
                       next_addr := p + n + 1\<rparr>)))"

text \<open>\<open>AllocTraitsT::deallocate(alloc, p, n)\<close>: never throws; runs no destructor.\<close>

definition alloc_deallocate :: "'a env \<Rightarrow> nat \<Rightarrow> nat \<Rightarrow> nat \<Rightarrow> 'a heap \<Rightarrow> 'a heap" where
  "alloc_deallocate E a p n h =
     (case blocks h p of
        None \<Rightarrow> h\<lparr>ub := True\<rparr>
      | Some (n', a') \<Rightarrow>
          if n' = n \<and> alloc_eq E a' a
          then h\<lparr>mem := (\<lambda>q. if p \<le> q \<and> q < p + n then Unallocated else mem h q),
                 blocks := (blocks h)(p := None),
                 undestroyed := undestroyed h + length (filter (\<lambda>q. is_obj (mem h q)) [p..<p + n])\<rparr>
          else h\<lparr>ub := True\<rparr>)"

text \<open>An object comes to life in a raw slot; anywhere else the write is undefined.\<close>

definition place :: "nat \<Rightarrow> 'a \<Rightarrow> 'a heap \<Rightarrow> 'a heap" where
  "place p x h =
     (case mem h p of
        Raw \<Rightarrow> h\<lparr>mem := (mem h)(p := Obj x), n_ctor := n_ctor h + 1\<rparr>
      | _ \<Rightarrow> h\<lparr>n_ctor := n_ctor h + 1, ub := True\<rparr>)"

text \<open>\<open>AllocTraitsT::construct(alloc, p, args...)\<close>: the constructor may throw.\<close>

definition construct :: "'a env \<Rightarrow> nat \<Rightarrow> 'a \<Rightarrow> 'a heap \<Rightarrow> error option \<times> 'a heap" where
  "construct E p x h =
     (if ctor_throws E (n_ctor h) then (Some ElementException, h\<lparr>n_ctor := n_ctor h + 1\<rparr>)
      else (None, place p x h))"

text \<open>\<open>AllocTraitsT::destroy(alloc, p)\<close>: must not throw.\<close>

definition destroy :: "nat \<Rightarrow> 'a heap \<Rightarrow> 'a heap" where
  "destroy p h =
     (case mem h p of
        Obj _ \<Rightarrow> h\<lparr>mem := (mem h)(p := Raw), n_dtor := n_dtor h + 1\<rparr>
      | _ \<Rightarrow> h\<lparr>n_dtor := n_dtor h + 1, ub := True\<rparr>)"

subsection \<open>The helpers of \<open>simple/container_algorithm.h\<close>\<close>

datatype reloc = Copy | Move | MoveIfNoexcept

definition mark_moved :: "'a env \<Rightarrow> nat \<Rightarrow> 'a \<Rightarrow> 'a heap \<Rightarrow> 'a heap" where
  "mark_moved E s x h = h\<lparr>mem := (mem h)(s := Obj (moved_from E x))\<rparr>"

text \<open>
  Modelled from the spec: the header \<open>simple/container_algorithm.h\<close> is missing. One
  element of a relocation (spec 4.3, step 2): "move-construct if the element's move
  constructor cannot throw, otherwise copy-construct"; a copy leaves the source as it is, a
  move leaves it a live moved-from object.
\<close>

definition relocate_one :: "'a env \<Rightarrow> reloc \<Rightarrow> nat \<Rightarrow> nat \<Rightarrow> 'a heap \<Rightarrow> error option \<times> 'a heap" where
  "relocate_one E k s d h =
     (case mem h s of
        Obj x \<Rightarrow>
          if k = Copy \<or> (k = MoveIfNoexcept \<and> \<not> nothrow_move E) then construct E d x h
          else if nothrow_move E then (None, mark_moved E s x (place d x h))
          else (case construct E d x h of
                  (None, h1) \<Rightarrow> (None, mark_moved E s x h1)
                | (Some e, h1) \<Rightarrow> (Some e, h1))
      | _ \<Rightarrow> (None, h\<lparr>ub := True\<rparr>))"

fun uninit_loop :: "'a env \<Rightarrow> reloc \<Rightarrow> nat list \<Rightarrow> nat \<Rightarrow> 'a heap \<Rightarrow> error option \<times> nat \<times> 'a heap" where
  "uninit_loop E k [] d h = (None, d, h)"
| "uninit_loop E k (s # ss) d h =
     (case relocate_one E k s d h of
        (Some e, h1) \<Rightarrow> (Some e, d, h1)
      | (None, h1) \<Rightarrow> uninit_loop E k ss (Suc d) h1)"

text \<open>
  Modelled from the spec: the \<open>uninitialized_*\<close> algorithms of the missing header take
  \<open>(first, last, d_first, alloc)\<close> and return the end of the constructed range, as the
  callers in vector.h use them. When a construction throws, what was already constructed
  in the destination is destroyed and the exception propagates (spec 4.3, step 3).
\<close>

definition uninitialized :: "'a env \<Rightarrow> reloc \<Rightarrow> nat \<Rightarrow> nat \<Rightarrow> nat \<Rightarrow> 'a heap \<Rightarrow> (error + nat) \<times> 'a heap" where
  "uninitialized E k first lst d_first h =
     (case uninit_loop E k [first..<lst] d_first h of
        (Some e, d, h1) \<Rightarrow> (Inl e, fold destroy [d_first..<d] h1)
      | (None, d, h1) \<Rightarrow> (Inr d, h1))"

definition uninitialized_copy :: "'a env \<Rightarrow> nat \<Rightarrow> nat \<Rightarrow> nat \<Rightarrow> 'a heap \<Rightarrow> (error + nat) \<times> 'a heap" where
  "uninitialized_copy E = uninitialized E Copy"


definition uninitialized_move_if_noexcept_launder ::
  "'a env \<Rightarrow> nat \<Rightarrow> nat \<Rightarrow> nat \<Rightarrow> 'a heap \<Rightarrow> (error + nat) \<times> 'a heap" where
  "uninitialized_move_if_noexcept_launder E = uninitialized E MoveIfNoexcept"

section \<open>The vector\<close>

subsection \<open>Getters\<close>

text \<open>
  \<open>size()\<close> is \<open>m_end - m_begin\<close> and \<open>capacity()\<close> is \<open>m_realend - m_begin\<close>. The
  subtraction of \<open>nat\<close> stops at \<open>0\<close>; the source's pointers only get out of order after
  undefined behaviour.
\<close>

definition size_v :: "vector \<Rightarrow> nat" where
  "size_v v = m_end v - m_begin v"

definition capacity :: "vector \<Rightarrow> nat" where
  "capacity v = m_realend v - m_begin v"

definition empty :: "vector \<Rightarrow> bool" where
  "empty v = (size_v v = 0)"

definition ptrdiff_max :: nat where
  "ptrdiff_max = 2 ^ 63 - 1"

definition max_size :: "'a env \<Rightarrow> nat" where
  "max_size E = min (ptrdiff_max div sizeof_value E) (alloc_max_size E)"

text \<open>The elements as the container shows them: the contents of \<open>[m_begin, m_end)\<close>.\<close>

definition elems :: "vector \<Rightarrow> 'a heap \<Rightarrow> 'a slot list" where
  "elems v h = map (mem h) [m_begin v..<m_end v]"

subsection \<open>Allocation and deallocation utilities\<close>

text \<open>
  \<open>allocate_tmp\<close>: the allocator is asked first; only when it throws is the request
  compared with \<open>max_size()\<close>.
\<close>

definition allocate_tmp :: "'a env \<Rightarrow> nat \<Rightarrow> vector \<times> 'a heap \<Rightarrow> (error + nat) \<times> 'a heap" where
  "allocate_tmp E cap s =
     (case alloc_allocate E (m_alloc (fst s)) cap (snd s) of
        (Inr p, h1) \<Rightarrow> (Inr p, h1)
      | (Inl e, h1) \<Rightarrow> if cap > max_size E then (Inl LengthError, h1) else (Inl e, h1))"

definition pop_back :: "vector \<times> 'a heap \<Rightarrow> vector \<times> 'a heap" where
  "pop_back s = ((fst s)\<lparr>m_end := m_end (fst s) - 1\<rparr>, destroy (m_end (fst s) - 1) (snd s))"

function clear :: "vector \<times> 'a heap \<Rightarrow> vector \<times> 'a heap" where
  "clear s = (if \<not> empty (fst s) then clear (pop_back s) else s)"
  by pat_completeness auto
termination
  by (relation "measure (\<lambda>s. size_v (fst s))") (auto simp: empty_def size_v_def pop_back_def)

declare clear.simps [simp del]

definition deallocate :: "'a env \<Rightarrow> vector \<times> 'a heap \<Rightarrow> vector \<times> 'a heap" where
  "deallocate E s =
     (let s1 = clear s in
      if m_begin (fst s1) \<noteq> 0
      then (fst s1, alloc_deallocate E (m_alloc (fst s1)) (m_begin (fst s1)) (capacity (fst s1)) (snd s1))
      else s1)"

subsection \<open>Insertion modifiers\<close>

text \<open>
  The arguments of \<open>emplace_back(T&&... args)\<close> are forwarded with
  \<open>std::forward<T>(args)...\<close> at every construction. An lvalue argument is copied and
  stays as it is. An rvalue argument is moved from: the constructor that receives it
  leaves it a moved-from object, and a later construction from the same argument sees
  that. \<open>Rval x\<close> is an rvalue outside the modelled memory (a temporary of the caller),
  \<open>RvalAt t\<close> an rvalue reference to the object at address \<open>t\<close>. (An lvalue reference to
  an element is \<open>Lval\<close> of its value: nothing writes to the element between the
  constructions that read it.)
\<close>

datatype 'a arg = Lval 'a | Rval 'a | RvalAt nat

text \<open>
  \<open>AllocTraitsT::construct(m_alloc, p, std::forward<T>(args)...)\<close>: the result, the
  argument as the construction leaves it, and the heap. A \<open>noexcept\<close> move constructor
  does not throw.
\<close>

definition construct_arg ::
  "'a env \<Rightarrow> nat \<Rightarrow> 'a arg \<Rightarrow> 'a heap \<Rightarrow> error option \<times> 'a arg \<times> 'a heap" where
  "construct_arg E p a h =
     (case a of
        Lval x \<Rightarrow> (case construct E p x h of (r, h1) \<Rightarrow> (r, a, h1))
      | Rval x \<Rightarrow>
          if nothrow_move E then (None, Rval (moved_from E x), place p x h)
          else (case construct E p x h of
                  (None, h1) \<Rightarrow> (None, Rval (moved_from E x), h1)
                | (Some e, h1) \<Rightarrow> (Some e, a, h1))
      | RvalAt t \<Rightarrow>
          (case mem h t of
             Obj x \<Rightarrow>
               if nothrow_move E then (None, a, mark_moved E t x (place p x h))
               else (case construct E p x h of
                       (None, h1) \<Rightarrow> (None, a, mark_moved E t x h1)
                     | (Some e, h1) \<Rightarrow> (Some e, a, h1))
           | _ \<Rightarrow> (None, a, h\<lparr>ub := True\<rparr>)))"

text \<open>
  \<open>emplace_back\<close>, lines 536-564. The \<open>if\<close> of the in-place path has no \<open>return\<close>:
  after it, control reaches the reallocation in every case, and the arguments are
  forwarded a second time.
\<close>

definition emplace_back_args ::
  "'a env \<Rightarrow> 'a arg \<Rightarrow> vector \<times> 'a heap \<Rightarrow> error option \<times> vector \<times> 'a heap" where
  "emplace_back_args E a s =
     (case (if m_end (fst s) < m_realend (fst s)
            then (case construct_arg E (m_end (fst s)) a (snd s) of
                    (None, a1, h1) \<Rightarrow> (None, a1, (fst s)\<lparr>m_end := m_end (fst s) + 1\<rparr>, h1)
                  | (Some e, a1, h1) \<Rightarrow> (Some e, a1, fst s, h1))
            else (None, a, s)) of
        (Some e, a1, v1, h1) \<Rightarrow> (Some e, v1, h1)
      | (None, a1, v1, h1) \<Rightarrow>
          (let oldsize = size_v v1; newcap = size_v v1 * 2 in
           case allocate_tmp E newcap (v1, h1) of
             (Inl e, h2) \<Rightarrow> (Some e, v1, h2)
           | (Inr tmp, h2) \<Rightarrow>
               (case construct_arg E (tmp + oldsize) a1 h2 of
                  (Some e, a2, h3) \<Rightarrow> (Some e, v1, alloc_deallocate E (m_alloc v1) tmp newcap h3)
                | (None, a2, h3) \<Rightarrow>
                    (case uninitialized_move_if_noexcept_launder E (m_begin v1) (m_end v1) tmp h3 of
                       (Inl e, h4) \<Rightarrow> (Some e, v1, alloc_deallocate E (m_alloc v1) tmp newcap h4)
                     | (Inr _, h4) \<Rightarrow>
                         (None,
                          v1\<lparr>m_begin := tmp, m_end := tmp + oldsize + 1, m_realend := tmp + newcap\<rparr>,
                          alloc_deallocate E (m_alloc v1) (m_begin v1) (capacity v1) h4)))))"

text \<open>\<open>push_back(T&& v)\<close> is \<open>emplace_back(std::forward<T>(v))\<close>.\<close>

definition push_back_args ::
  "'a env \<Rightarrow> 'a arg \<Rightarrow> vector \<times> 'a heap \<Rightarrow> error option \<times> vector \<times> 'a heap" where
  "push_back_args E a s = emplace_back_args E a s"

text \<open>The two calls with an argument that is copied: an lvalue of value \<open>x\<close>.\<close>

definition emplace_back :: "'a env \<Rightarrow> 'a \<Rightarrow> vector \<times> 'a heap \<Rightarrow> error option \<times> vector \<times> 'a heap" where
  "emplace_back E x s = emplace_back_args E (Lval x) s"

definition push_back :: "'a env \<Rightarrow> 'a \<Rightarrow> vector \<times> 'a heap \<Rightarrow> error option \<times> vector \<times> 'a heap" where
  "push_back E x s = push_back_args E (Lval x) s"

subsection \<open>Size modifiers\<close>

text \<open>\<open>for (; end < tmp + count; ++end) construct(m_alloc, end)\<close> with a default-constructed value.\<close>

function construct_loop :: "'a env \<Rightarrow> nat \<Rightarrow> nat \<Rightarrow> 'a heap \<Rightarrow> error option \<times> nat \<times> 'a heap" where
  "construct_loop E e_nd lim h =
     (if e_nd < lim
      then (case construct E e_nd (default_value E) h of
              (Some e, h1) \<Rightarrow> (Some e, e_nd, h1)
            | (None, h1) \<Rightarrow> construct_loop E (Suc e_nd) lim h1)
      else (None, e_nd, h))"
  by pat_completeness auto
termination
  by (relation "measure (\<lambda>(E, e_nd, lim, h). lim - e_nd)") auto

declare construct_loop.simps [simp del]

text \<open>\<open>while (size() > count) pop_back();\<close>\<close>

function pop_loop :: "nat \<Rightarrow> vector \<times> 'a heap \<Rightarrow> vector \<times> 'a heap" where
  "pop_loop count s = (if size_v (fst s) > count then pop_loop count (pop_back s) else s)"
  by pat_completeness auto
termination
  by (relation "measure (\<lambda>(count, s). size_v (fst s))") (auto simp: size_v_def pop_back_def)

declare pop_loop.simps [simp del]

text \<open>
  \<open>while (size() > count) emplace_back();\<close> in the branch \<open>count > size()\<close> of \<open>resize\<close>,
  with the condition as the source has it. Each round makes \<open>size()\<close> larger, so the
  loop is a partial function: \<open>None\<close> stands for not returning.
\<close>

partial_function (option) grow_loop ::
  "'a env \<Rightarrow> nat \<Rightarrow> vector \<times> 'a heap \<Rightarrow> (error option \<times> vector \<times> 'a heap) option" where
  "grow_loop E count s =
     (if size_v (fst s) > count
      then (case emplace_back E (default_value E) s of
              (Some e, s1) \<Rightarrow> Some (Some e, s1)
            | (None, s1) \<Rightarrow> grow_loop E count s1)
      else Some (None, s))"

declare grow_loop.simps [code]

text \<open>
  \<open>resize(size_t count)\<close>, lines 459-487. \<open>emplace_back()\<close> without arguments
  value-initialises the element at each construction. The handler is the one-argument
  call \<open>AllocTraitsT::deallocate(tmp)\<close>: see \<open>deallocate_one_arg\<close>.
\<close>

definition resize :: "'a env \<Rightarrow> nat \<Rightarrow> vector \<times> 'a heap \<Rightarrow> (error option \<times> vector \<times> 'a heap) option" where
  "resize E count s =
     (if count > capacity (fst s) then
        (case allocate_tmp E count s of
           (Inl e, h1) \<Rightarrow> Some (Some e, fst s, h1)
         | (Inr tmp, h1) \<Rightarrow>
             (case uninitialized_move_if_noexcept_launder E (m_begin (fst s)) (m_end (fst s)) tmp h1 of
                (Inl e, h2) \<Rightarrow> Some (Some e, fst s, deallocate_one_arg E tmp h2)
              | (Inr e_nd, h2) \<Rightarrow>
                  (case construct_loop E e_nd (tmp + count) h2 of
                     (Some e, e1, h3) \<Rightarrow> Some (Some e, fst s, deallocate_one_arg E tmp h3)
                   | (None, e1, h3) \<Rightarrow>
                       (let s4 = deallocate E (fst s, h3) in
                        Some (None, (fst s4)\<lparr>m_begin := tmp, m_end := e1, m_realend := tmp + count\<rparr>,
                              snd s4)))))
      else if count > size_v (fst s) then grow_loop E count s
      else Some (None, pop_loop count s))"

subsection \<open>Constructors\<close>

definition vector_default :: "nat \<Rightarrow> vector" where
  "vector_default a = \<lparr>m_begin = 0, m_end = 0, m_realend = 0, m_alloc = a\<rparr>"

text \<open>
  The member \<open>allocate(capacity, alloc)\<close>, lines 679-693: like \<open>allocate_tmp\<close> the
  allocator is asked first.
\<close>

definition allocate :: "'a env \<Rightarrow> nat \<Rightarrow> nat \<Rightarrow> vector \<times> 'a heap \<Rightarrow> error option \<times> vector \<times> 'a heap" where
  "allocate E cap a s =
     (case alloc_allocate E a cap (snd s) of
        (Inr p, h1) \<Rightarrow> (None, (fst s)\<lparr>m_begin := p, m_realend := p + cap\<rparr>, h1)
      | (Inl e, h1) \<Rightarrow> if cap > max_size E then (Some LengthError, fst s, h1) else (Some e, fst s, h1))"

text \<open>
  \<open>vector(size_t count, const AllocT& alloc)\<close>, lines 92-101. The pointers are not
  initialised before \<open>allocate\<close> sets them; a constructor that throws leaves no object.
\<close>

definition vector_sized :: "'a env \<Rightarrow> nat \<Rightarrow> nat \<Rightarrow> 'a heap \<Rightarrow> (error + vector) \<times> 'a heap" where
  "vector_sized E count a h =
     (case allocate E count a (vector_default a, h) of
        (Some e, v1, h1) \<Rightarrow> (Inl e, h1)
      | (None, v1, h1) \<Rightarrow>
          (case construct_loop E (m_begin v1) (m_realend v1) h1 of
             (Some e, e1, h2) \<Rightarrow> (Inl e, h2)
           | (None, e1, h2) \<Rightarrow> (Inr (v1\<lparr>m_end := m_realend v1\<rparr>), h2)))"

subsection \<open>Element access and cursors\<close>

text \<open>A reference is the address of the element it refers to.\<close>

definition check_range :: "vector \<Rightarrow> nat \<Rightarrow> error option" where
  "check_range v n = (if n \<ge> size_v v then Some OutOfRange else None)"

definition subscript :: "vector \<Rightarrow> nat \<Rightarrow> nat" where
  "subscript v i = m_begin v + i"

definition front :: "vector \<Rightarrow> nat" where
  "front v = m_begin v"

definition back_v :: "vector \<Rightarrow> nat" where
  "back_v v = m_end v - 1"

text \<open>
  \<open>std::reverse_iterator<ValueT*>\<close> holds a pointer \<open>current\<close>; \<open>*r\<close> is \<open>*(current - 1)\<close>
  and \<open>r + n\<close> holds \<open>current - n\<close>.
\<close>

datatype rev_ptr = RevPtr nat

fun rev_deref :: "rev_ptr \<Rightarrow> nat" where
  "rev_deref (RevPtr p) = p - 1"

fun rev_advance :: "rev_ptr \<Rightarrow> nat \<Rightarrow> rev_ptr" where
  "rev_advance (RevPtr p) n = RevPtr (p - n)"

text \<open>\<open>rbegin()\<close> returns \<open>m_begin\<close> and \<open>rend()\<close> returns \<open>m_end\<close>, lines 397-402.\<close>

definition rbegin :: "vector \<Rightarrow> rev_ptr" where
  "rbegin v = RevPtr (m_begin v)"

definition rend :: "vector \<Rightarrow> rev_ptr" where
  "rend v = RevPtr (m_end v)"

subsection \<open>Move assignment\<close>







section \<open>Concrete states\<close>

text \<open>
  An element type \<open>nat\<close> whose operations never throw and whose move constructor is
  \<open>noexcept\<close>, with an allocator that never refuses; and a variant whose second
  constructor call throws and whose move constructor may throw. No state below reaches
  the handler of \<open>resize\<close>, so \<open>deallocate_one_arg\<close> is never applied.
\<close>

definition env0 :: "nat env" where
  "env0 = \<lparr>alloc_throws = (\<lambda>n. False), alloc_max_size = 1000, sizeof_value = 4,
           ctor_throws = (\<lambda>k. False), assign_throws = (\<lambda>k. False), nothrow_move = True,
           moved_from = (\<lambda>x. 0), default_value = 0, pocma = True, is_always_equal = True,
           deallocate_one_arg = (\<lambda>p h. h)\<rparr>"

definition env_copy_throws :: "nat env" where
  "env_copy_throws = env0\<lparr>ctor_throws := (\<lambda>k. k = 1), nothrow_move := False\<rparr>"

text \<open>The heap before anything is allocated.\<close>

definition heap0 :: "nat heap" where
  "heap0 = \<lparr>mem = (\<lambda>q. Unallocated), blocks = (\<lambda>p. None), next_addr = 1,
            n_alloc = 0, n_ctor = 0, n_dtor = 0, n_assign = 0, undestroyed = 0, ub = False\<rparr>"

text \<open>A vector holding the element \<open>10\<close> in a block of two slots at address \<open>1\<close>.\<close>

definition heap1 :: "nat heap" where
  "heap1 = heap0\<lparr>mem := (\<lambda>q. if q = 1 then Obj 10 else if q = 2 then Raw else Unallocated),
                 blocks := (\<lambda>p. if p = 1 then Some (2, 0) else None), next_addr := 4\<rparr>"

definition vec1 :: vector where
  "vec1 = \<lparr>m_begin = 1, m_end = 2, m_realend = 3, m_alloc = 0\<rparr>"

text \<open>A vector holding the element \<open>10\<close> in a block of one slot: size equals capacity.\<close>

definition heap_full :: "nat heap" where
  "heap_full = heap0\<lparr>mem := (\<lambda>q. if q = 1 then Obj 10 else Unallocated),
                     blocks := (\<lambda>p. if p = 1 then Some (1, 0) else None), next_addr := 3\<rparr>"

definition vec_full :: vector where
  "vec_full = \<lparr>m_begin = 1, m_end = 2, m_realend = 2, m_alloc = 0\<rparr>"

text \<open>An allocator that refuses every request above its \<open>max_size()\<close> of one element.\<close>

definition env_small :: "nat env" where
  "env_small = env0\<lparr>alloc_throws := (\<lambda>n. 1 < n), alloc_max_size := 1\<rparr>"




section \<open>Invariants\<close>

text \<open>
  The pointer window of spec section 3: \<open>start \<le> live_end \<le> capacity_end\<close>, and
  \<open>start\<close> is null exactly when the capacity is zero.
\<close>

definition triple_ok :: "vector \<Rightarrow> bool" where
  "triple_ok v =
     (m_begin v \<le> m_end v \<and> m_end v \<le> m_realend v \<and> (m_begin v = 0 \<longleftrightarrow> capacity v = 0))"


text \<open>An allocator that accepts every request although its \<open>max_size()\<close> is one element.\<close>

definition env_accept :: "nat env" where
  "env_accept = env0\<lparr>alloc_max_size := 1\<rparr>"

section \<open>Append\<close>

text \<open>
  Claim C1: with size below capacity, \<open>emplace_back\<close> constructs in the first spare slot,
  adds one to the size, leaves capacity, addresses and old values alone and returns
  without reallocating.

  The code does not: the in-place branch has no \<open>return\<close>. On the vector \<open>[10]\<close> with
  capacity 2, \<open>emplace_back(20)\<close> constructs 20 in the spare slot, then allocates a block of
  \<open>2 * size() = 4\<close>, constructs 20 again at index 2, relocates both elements and releases
  the old block: the size grows by two, the capacity changes, the elements move to
  address 4 and the allocator is called.
\<close>

theorem emplace_back_spare_capacity_reallocates:
  "size_v vec1 = 1 \<and> capacity vec1 = 2 \<and> elems vec1 heap1 = [Obj 10] \<and>
   (case emplace_back env0 20 (vec1, heap1) of (e, v, h) \<Rightarrow>
      e = None \<and> size_v v = 3 \<and> capacity v = 4 \<and> elems v h = [Obj 10, Obj 20, Obj 20] \<and>
      m_begin vec1 = 1 \<and> m_begin v = 4 \<and> n_alloc h = n_alloc heap1 + 1)"
  by code_simp

text \<open>
  Claim C2: when a construction throws during a growing \<open>emplace_back\<close> (size equal to
  capacity), the exception propagates, size, capacity and values are as before, every
  element already constructed in the new block is destroyed and the new block is
  deallocated.

  The handler only deallocates. On the full vector \<open>[10]\<close>, with an element type whose
  copy constructor throws at the second construction: the new element 20 is constructed
  at index 1 of the new block, the copy of 10 throws, and the block at address 3 is
  released with the object 20 still in it. The container is unchanged, but no destructor
  has run.
\<close>

theorem emplace_back_throw_new_element_not_destroyed:
  "size_v vec_full = capacity vec_full \<and>
   (case emplace_back env_copy_throws 20 (vec_full, heap_full) of (e, v, h) \<Rightarrow>
      e = Some ElementException \<and> v = vec_full \<and> elems v h = elems vec_full heap_full \<and>
      blocks h 3 = None \<and> n_ctor h = 2 \<and> n_dtor h = 0 \<and> undestroyed h = 1)"
  by code_simp

text \<open>
  Claim C3: an append that must grow takes the capacity to \<open>max(1, 2 * capacity)\<close>;
  appending to a vector of capacity zero gives a nonzero capacity with the appended
  element as the single live element.

  The code computes \<open>size() * 2\<close>. On the default-constructed vector that is 0: the new
  block has no slot, the element is constructed outside it (undefined), and the pointers
  become \<open>m_begin = tmp\<close>, \<open>m_end = tmp + 1\<close>, \<open>m_realend = tmp\<close>: capacity 0, and the
  one slot in \<open>[m_begin, m_end)\<close> is not allocated storage.
\<close>

theorem emplace_back_zero_capacity_stays_zero:
  "capacity (vector_default 0) = 0 \<and>
   (case emplace_back env0 7 (vector_default 0, heap0) of (e, v, h) \<Rightarrow>
      e = None \<and> capacity v = 0 \<and> capacity v \<noteq> max 1 (2 * capacity (vector_default 0)) \<and>
      size_v v = 1 \<and> elems v h = [Unallocated] \<and> ub h)"
  by code_simp

section \<open>Resize\<close>

text \<open>
  Claim C4: \<open>resize(n)\<close> ends with size \<open>n\<close>: it destroys \<open>size - n\<close> trailing elements when
  \<open>n < size\<close>, default-constructs \<open>n - size\<close> elements in place when
  \<open>size < n \<le> capacity\<close>, and reallocates to capacity \<open>n\<close> when \<open>n > capacity\<close>.

  In the middle branch the loop is \<open>while (size() > count) emplace_back();\<close>: its
  condition is false on entry. On the vector \<open>[10]\<close> with capacity 2, \<open>resize(2)\<close> returns
  with size 1 and no constructor called.
\<close>

theorem resize_within_capacity_constructs_nothing:
  "size_v vec1 < 2 \<and> 2 \<le> capacity vec1 \<and>
   (case resize env0 2 (vec1, heap1) of
      Some (e, v, h) \<Rightarrow> e = None \<and> size_v v = 1 \<and> n_ctor h = n_ctor heap1
    | None \<Rightarrow> False)"
  by code_simp

section \<open>Reserve\<close>

text \<open>
  Claim C6: \<open>reserve(n)\<close> with \<open>n \<le> capacity\<close> changes nothing; with \<open>n > capacity\<close> it
  sets the capacity to exactly \<open>n\<close> and preserves size and element values.

  \<open>reserve\<close> (lines 420-437) has the handler of \<open>resize\<close>:
  \<open>catch (...) { AllocTraitsT::deallocate(tmp); throw; }\<close> at line 433.
  \<open>std::allocator_traits\<close> declares \<open>deallocate(a, p, n)\<close> only, so the member cannot be
  instantiated and a program that calls \<open>reserve\<close> does not compile. The handlers of
  \<open>emplace_back\<close> (line 556) and of the assignment operators pass all three arguments.
  The member is given no definition here.
\<close>

section \<open>The pointer window\<close>

text \<open>
  Claim C5: after every public operation \<open>start \<le> live_end \<le> capacity_end\<close> holds, and
  \<open>start\<close> is null exactly when the capacity is zero.

  \<open>emplace_back\<close> on the default-constructed vector (which satisfies both) returns with
  \<open>m_end\<close> one past \<open>m_realend\<close> and with a non-null \<open>m_begin\<close> at capacity zero.
\<close>

theorem emplace_back_empty_breaks_pointer_order:
  "triple_ok (vector_default 0) \<and>
   (case emplace_back env0 7 (vector_default 0, heap0) of (e, v, h) \<Rightarrow>
      e = None \<and> \<not> triple_ok v \<and> m_realend v < m_end v \<and> m_begin v \<noteq> 0 \<and> capacity v = 0)"
  by code_simp

section \<open>Checked access\<close>

text \<open>
  Claim C7: \<open>at(i)\<close> fails with OutOfRange exactly when \<open>i \<ge> size\<close>, and otherwise returns
  a reference to the \<open>i\<close>-th element, the container unchanged.

  The check is \<open>check_range\<close>, a \<open>const\<close> member that throws exactly when \<open>i \<ge> size()\<close>.
  What \<open>at\<close> returns after the check is written \<open>*this[i]\<close>, which is \<open>*(this[i])\<close>: the
  \<open>this\<close> pointer is indexed and unary \<open>*\<close> applied to a vector. That is not the element
  \<open>(*this)[i]\<close>, which is \<open>subscript\<close> here.
\<close>

theorem check_range_out_of_range_iff:
  "(check_range v i = Some OutOfRange) = (size_v v \<le> i) \<and>
   (check_range v i = None) = (i < size_v v)"
  by (auto simp: check_range_def)

section \<open>Reverse cursors\<close>

text \<open>
  Claim C10: on a non-empty vector \<open>*rbegin()\<close> is the last element, the element before
  \<open>rend()\<close> is the first, and \<open>rbegin() + size()\<close> is \<open>rend()\<close>.

  \<open>rbegin()\<close> is built from \<open>m_begin\<close> and \<open>rend()\<close> from \<open>m_end\<close>: the pair is the wrong
  way round. On the vector \<open>[10]\<close> at address 1, \<open>*rbegin()\<close> is the slot before the block,
  not \<open>back()\<close>, and advancing \<open>rbegin()\<close> by the size does not reach \<open>rend()\<close>.
\<close>

theorem rbegin_rend_swapped:
  "size_v vec1 = 1 \<and> back_v vec1 = 1 \<and> rev_deref (rbegin vec1) = 0 \<and>
   mem heap1 (rev_deref (rbegin vec1)) = Unallocated \<and>
   rev_advance (rbegin vec1) (size_v vec1) \<noteq> rend vec1"
  by code_simp

section \<open>What clearing and releasing touch\<close>
















section \<open>Length errors\<close>

lemma allocate_tmp_length_error:
  "max_size E < n \<Longrightarrow> alloc_throws E n \<Longrightarrow>
   allocate_tmp E n s = (Inl LengthError, (snd s)\<lparr>n_alloc := n_alloc (snd s) + 1\<rparr>)"
  by (simp add: allocate_tmp_def alloc_allocate_def Let_def)

text \<open>
  Claim C8, as amended: for an append from size equal to capacity and for the sized
  constructor, when the requested capacity exceeds \<open>max_size()\<close> and the allocator's
  \<open>allocate\<close> throws for it, the operation fails with LengthError; \<open>allocate\<close> has been
  called once by then, and the vector and the memory are unchanged. (\<open>reserve\<close> and
  \<open>resize\<close> are left out: as written they cannot be instantiated.)
\<close>

theorem length_error_after_allocate:
  assumes "max_size E < n" and "alloc_throws E n"
  shows "(\<not> m_end (fst s) < m_realend (fst s) \<and> size_v (fst s) * 2 = n \<longrightarrow>
            emplace_back_args E ar s =
              (Some LengthError, fst s, (snd s)\<lparr>n_alloc := n_alloc (snd s) + 1\<rparr>)) \<and>
         vector_sized E n a h = (Inl LengthError, h\<lparr>n_alloc := n_alloc h + 1\<rparr>)"
proof (intro conjI impI)
  assume "\<not> m_end (fst s) < m_realend (fst s) \<and> size_v (fst s) * 2 = n"
  then show "emplace_back_args E ar s =
               (Some LengthError, fst s, (snd s)\<lparr>n_alloc := n_alloc (snd s) + 1\<rparr>)"
    using assms allocate_tmp_length_error [of E n s]
    by (cases s) (auto simp: emplace_back_args_def Let_def)
next
  show "vector_sized E n a h = (Inl LengthError, h\<lparr>n_alloc := n_alloc h + 1\<rparr>)"
    using assms by (simp add: vector_sized_def allocate_def alloc_allocate_def Let_def)
qed

text \<open>
  With an allocator of \<open>max_size()\<close> one that refuses larger requests: an append to the
  full vector \<open>[10]\<close>, which asks for two slots, and the sized constructor with count two.
\<close>

theorem length_error_after_allocate_witness:
  "emplace_back_args env_small (Lval 7) (vec_full, heap_full) =
     (Some LengthError, vec_full, heap_full\<lparr>n_alloc := n_alloc heap_full + 1\<rparr>) \<and>
   vector_sized env_small 2 0 heap0 = (Inl LengthError, heap0\<lparr>n_alloc := n_alloc heap0 + 1\<rparr>)"
proof -
  have a: "max_size env_small < 2" by (simp add: max_size_def env_small_def env0_def)
  have b: "alloc_throws env_small 2" by code_simp
  have d: "\<not> m_end vec_full < m_realend vec_full \<and> size_v vec_full * 2 = 2" by code_simp
  show ?thesis
    using length_error_after_allocate [OF a b, of "(vec_full, heap_full)" "Lval 7" 0 heap0] d by simp
qed

text \<open>
  Claim C8 as written fails in two ways, because \<open>allocate\<close> and \<open>allocate_tmp\<close> call the
  allocator first and compare the request with \<open>max_size()\<close> only in the handler. When
  the allocator accepts a request above \<open>max_size()\<close> there is no LengthError at all: the
  append and the sized constructor succeed with capacity two. When it refuses, the
  LengthError comes after one call of \<open>allocate\<close>, not before.
\<close>

theorem length_error_counterexample:
  "max_size env_accept < 2 \<and> size_v vec_full = capacity vec_full \<and>
   (case emplace_back env_accept 7 (vec_full, heap_full) of (e, v, h) \<Rightarrow>
      e = None \<and> capacity v = 2) \<and>
   (case vector_sized env_accept 2 0 heap0 of
      (Inr v, h) \<Rightarrow> capacity v = 2 | (Inl e, h) \<Rightarrow> False) \<and>
   max_size env_small < 2 \<and>
   (case emplace_back env_small 7 (vec_full, heap_full) of (e, v, h) \<Rightarrow>
      e = Some LengthError \<and> n_alloc h = n_alloc heap_full + 1)"
proof -
  have a: "max_size env_accept < 2" "max_size env_small < 2"
    by (simp_all add: max_size_def env_accept_def env_small_def env0_def)
  have b: "size_v vec_full = capacity vec_full" by code_simp
  have c: "case emplace_back env_accept 7 (vec_full, heap_full) of (e, v, h) \<Rightarrow>
             e = None \<and> capacity v = 2"
    by code_simp
  have d: "case vector_sized env_accept 2 0 heap0 of
             (Inr v, h) \<Rightarrow> capacity v = 2 | (Inl e, h) \<Rightarrow> False"
    by code_simp
  have e: "case emplace_back env_small 7 (vec_full, heap_full) of (e, v, h) \<Rightarrow>
             e = Some LengthError \<and> n_alloc h = n_alloc heap_full + 1"
    by (simp add: emplace_back_def emplace_back_args_def allocate_tmp_def alloc_allocate_def
                  max_size_def size_v_def Let_def env_small_def env0_def vec_full_def heap_full_def
                  heap0_def)
  show ?thesis using a b c d e by blast
qed

section \<open>Move assignment\<close>







end
